theory Spec2Isabelle
  imports Main "HOL-Library.Char_ord" "HOL-Library.List_Lexorder"
begin

section \<open>Data model of \<^verbatim>\<open>backend/server.py\<close>\<close>

text \<open>
  The three string enumerations of the server. Each member carries the string value
  that pydantic accepts in a request body and that is stored in the database.
\<close>

datatype PersonType = JOAN | MERY | PACO | BELEN

datatype AreaType = COCINA | SALON_PASILLO | BANO_JOAN_MERY | BANO_PACO_BELEN

datatype TaskType = LIMPIEZA_PRINCIPAL | LIMPIEZA_BANO

fun PersonType_value :: "PersonType \<Rightarrow> string" where
  "PersonType_value JOAN = ''joan''"
| "PersonType_value MERY = ''mery''"
| "PersonType_value PACO = ''paco''"
| "PersonType_value BELEN = ''belen''"

fun AreaType_value :: "AreaType \<Rightarrow> string" where
  "AreaType_value COCINA = ''cocina''"
| "AreaType_value SALON_PASILLO = ''salon_pasillo''"
| "AreaType_value BANO_JOAN_MERY = ''bano_joan_mery''"
| "AreaType_value BANO_PACO_BELEN = ''bano_paco_belen''"

fun TaskType_value :: "TaskType \<Rightarrow> string" where
  "TaskType_value LIMPIEZA_PRINCIPAL = ''limpieza_principal''"
| "TaskType_value LIMPIEZA_BANO = ''limpieza_bano''"

text \<open>
  \<^verbatim>\<open>class PersonTask(BaseModel)\<close>. The field \<^verbatim>\<open>id\<close> is called \<open>task_id\<close> and
  \<^verbatim>\<open>week_start\<close> is called \<open>task_week_start\<close>, since the schedule record has fields of
  the same names.
\<close>

record PersonTask =
  task_id :: string
  task_week_start :: string
  person :: PersonType
  area :: AreaType
  task_type :: TaskType
  limpieza_completada :: bool
  completed_at :: "string option"

text \<open>\<^verbatim>\<open>class WeekSchedule(BaseModel)\<close>; the field \<^verbatim>\<open>id\<close> is called \<open>schedule_id\<close>.\<close>

record WeekSchedule =
  schedule_id :: string
  week_start :: string
  week_end :: string
  week_number :: int
  year :: int
  joan_area :: AreaType
  mery_area :: AreaType
  paco_area :: AreaType
  belen_area :: AreaType
  joan_bano :: bool
  mery_bano :: bool
  paco_bano :: bool
  belen_bano :: bool
  tasks :: "PersonTask list"

text \<open>\<^verbatim>\<open>class TaskCompletionUpdate(BaseModel)\<close>, the validated body of a complete-task request.\<close>

record TaskCompletionUpdate =
  upd_week_start :: string
  upd_person :: PersonType
  upd_area :: AreaType
  upd_task_type :: TaskType
  completed :: bool

text \<open>
  Everything the modelled code can raise: the \<^verbatim>\<open>OverflowError\<close> of date arithmetic that
  leaves the range of \<^verbatim>\<open>datetime.date\<close>, the validation failure of a request body (which
  FastAPI answers with status 422), and \<^verbatim>\<open>HTTPException\<close> with its status code.
\<close>

datatype error = OverflowError | RequestValidationError | HTTPException nat

section \<open>The \<^verbatim>\<open>datetime.date\<close> operations the server uses\<close>

text \<open>
  A \<^verbatim>\<open>date\<close> is represented by its proleptic Gregorian ordinal (\<^verbatim>\<open>date.toordinal()\<close>:
  day 1 is 0001-01-01, the last day 3652059 is 9999-12-31). Comparison of dates is
  comparison of ordinals, and \<^verbatim>\<open>date + timedelta(days=n)\<close> adds \<open>n\<close> to the ordinal and
  raises \<^verbatim>\<open>OverflowError\<close> when the result is outside the range. The calendar fields are
  computed from the ordinal as the standard library does.
\<close>

definition MAXORDINAL :: int where
  "MAXORDINAL = 3652059"

definition valid_date :: "int \<Rightarrow> bool" where
  "valid_date d = (1 \<le> d \<and> d \<le> MAXORDINAL)"

definition date_add :: "int \<Rightarrow> int \<Rightarrow> error + int" where
  "date_add d n = (let o' = d + n in if 0 < o' \<and> o' \<le> MAXORDINAL then Inr o' else Inl OverflowError)"

definition date_sub :: "int \<Rightarrow> int \<Rightarrow> error + int" where
  "date_sub d n = date_add d (- n)"

definition weekday :: "int \<Rightarrow> int" where
  "weekday d = (d + 6) mod 7"

definition is_leap :: "int \<Rightarrow> bool" where
  "is_leap y = (y mod 4 = 0 \<and> (y mod 100 \<noteq> 0 \<or> y mod 400 = 0))"

definition days_before_year :: "int \<Rightarrow> int" where
  "days_before_year y = (let y' = y - 1 in y' * 365 + y' div 4 - y' div 100 + y' div 400)"

definition DAYS_IN_MONTH :: "int list" where
  "DAYS_IN_MONTH = [-1, 31, 28, 31, 30, 31, 30, 31, 31, 30, 31, 30, 31]"

definition DAYS_BEFORE_MONTH :: "int list" where
  "DAYS_BEFORE_MONTH = [-1, 0, 31, 59, 90, 120, 151, 181, 212, 243, 273, 304, 334]"

definition days_before_month :: "int \<Rightarrow> nat \<Rightarrow> int" where
  "days_before_month y m = DAYS_BEFORE_MONTH ! m + (if 2 < m \<and> is_leap y then 1 else 0)"

definition ymd2ord :: "int \<Rightarrow> nat \<Rightarrow> int \<Rightarrow> int" where
  "ymd2ord y m d = days_before_year y + days_before_month y m + d"

text \<open>
  \<^verbatim>\<open>_ord2ymd\<close>: year, month and day of an ordinal, with the 400-, 100-, 4- and 1-year
  cycles of 146097, 36524, 1461 and 365 days.
\<close>

definition ord2ymd :: "int \<Rightarrow> int \<times> nat \<times> int" where
  "ord2ymd n0 =
    (let n = n0 - 1;
         n400 = n div 146097; n = n mod 146097;
         y = n400 * 400 + 1;
         n100 = n div 36524; n = n mod 36524;
         n4 = n div 1461; n = n mod 1461;
         n1 = n div 365; n = n mod 365;
         y = y + n100 * 100 + n4 * 4 + n1
     in if n1 = 4 \<or> n100 = 4 then (y - 1, 12, 31)
        else
          let leapyear = (n1 = 3 \<and> (n4 \<noteq> 24 \<or> n100 = 3));
              month = nat ((n + 50) div 32);
              preceding = DAYS_BEFORE_MONTH ! month + (if 2 < month \<and> leapyear then 1 else 0)
          in if n < preceding
             then let month = month - 1;
                      preceding = preceding - (DAYS_IN_MONTH ! month + (if month = 2 \<and> leapyear then 1 else 0))
                  in (y, month, n - preceding + 1)
             else (y, month, n - preceding + 1))"

definition date_year :: "int \<Rightarrow> int" where
  "date_year d = fst (ord2ymd d)"

definition date_month :: "int \<Rightarrow> nat" where
  "date_month d = fst (snd (ord2ymd d))"

definition date_day :: "int \<Rightarrow> int" where
  "date_day d = snd (snd (ord2ymd d))"

text \<open>\<^verbatim>\<open>_isoweek1monday\<close>: the Monday of ISO week 1 of a year.\<close>

definition isoweek1monday :: "int \<Rightarrow> int" where
  "isoweek1monday y =
    (let firstday = ymd2ord y 1 1;
         firstweekday = (firstday + 6) mod 7;
         week1monday = firstday - firstweekday
     in if 3 < firstweekday then week1monday + 7 else week1monday)"

text \<open>\<^verbatim>\<open>date.isocalendar()\<close>: ISO year, ISO week number and ISO weekday.\<close>

definition isocalendar :: "int \<Rightarrow> int \<times> int \<times> int" where
  "isocalendar d =
    (let y = date_year d;
         week1monday = isoweek1monday y;
         today = ymd2ord y (date_month d) (date_day d);
         week = (today - week1monday) div 7;
         day = (today - week1monday) mod 7
     in if week < 0
        then let y = y - 1;
                 week1monday = isoweek1monday y;
                 week = (today - week1monday) div 7;
                 day = (today - week1monday) mod 7
             in (y, week + 1, day + 1)
        else if 52 \<le> week \<and> isoweek1monday (y + 1) \<le> today
        then (y + 1, 1, day + 1)
        else (y, week + 1, day + 1))"

text \<open>
  \<^verbatim>\<open>date.isoformat()\<close> is \<^verbatim>\<open>"%04d-%02d-%02d" % (year, month, day)\<close>. The year of a date
  is at most 9999, the month at most 12 and the day at most 31, so the zero-padded fields
  have exactly four, two and two digits.
\<close>

definition digit :: "int \<Rightarrow> char" where
  "digit n = ''0123456789'' ! nat (n mod 10)"

definition fmt_04d :: "int \<Rightarrow> string" where
  "fmt_04d n = [digit (n div 1000), digit (n div 100), digit (n div 10), digit n]"

definition fmt_02d :: "int \<Rightarrow> string" where
  "fmt_02d n = [digit (n div 10), digit n]"

definition isoformat :: "int \<Rightarrow> string" where
  "isoformat d = fmt_04d (date_year d) @ ''-'' @ fmt_02d (int (date_month d)) @ ''-'' @ fmt_02d (date_day d)"

section \<open>Helper functions of the server\<close>

definition get_monday_of_week :: "int \<Rightarrow> error + int" where
  "get_monday_of_week date =
    (let days_since_monday = weekday date
     in date_sub date days_since_monday)"

definition get_sunday_of_week :: "int \<Rightarrow> error + int" where
  "get_sunday_of_week date =
    (case get_monday_of_week date of
       Inl e \<Rightarrow> Inl e
     | Inr monday \<Rightarrow> date_add monday 6)"

text \<open>
  \<^verbatim>\<open>get_next_monday\<close> reads the clock; the current UTC date is the parameter \<open>today\<close>.
\<close>

definition get_next_monday :: "int \<Rightarrow> error + int" where
  "get_next_monday today =
    (let days_until_monday = (7 - weekday today) mod 7;
         days_until_monday = (if days_until_monday = 0 then 7 else days_until_monday)
     in date_add today days_until_monday)"

section \<open>The schedule generator\<close>

definition end_date :: int where
  "end_date = ymd2ord 2026 7 1"

text \<open>
  Every \<^verbatim>\<open>PersonTask\<close> and \<^verbatim>\<open>WeekSchedule\<close> draws its \<^verbatim>\<open>id\<close> from \<^verbatim>\<open>uuid.uuid4()\<close>.
  The random source is the parameter \<open>uuid4\<close>, the sequence of strings it hands out, and
  the number of identifiers drawn so far is threaded through the construction.
\<close>

definition new_PersonTask :: "string \<Rightarrow> string \<Rightarrow> PersonType \<Rightarrow> AreaType \<Rightarrow> TaskType \<Rightarrow> PersonTask" where
  "new_PersonTask i ws p a tt =
    \<lparr>task_id = i, task_week_start = ws, person = p, area = a, task_type = tt,
     limpieza_completada = False, completed_at = None\<rparr>"

text \<open>\<^verbatim>\<open>tasks.append(PersonTask(week_start=..., person=..., area=..., task_type=...))\<close>\<close>

definition append_task ::
  "(nat \<Rightarrow> string) \<Rightarrow> string \<Rightarrow> TaskType \<Rightarrow> nat \<times> PersonTask list \<Rightarrow> PersonType \<times> AreaType
    \<Rightarrow> nat \<times> PersonTask list" where
  "append_task uuid4 ws tt st pa =
    (case st of (k, ts) \<Rightarrow> case pa of (p, a) \<Rightarrow>
      (Suc k, ts @ [new_PersonTask (uuid4 k) ws p a tt]))"

text \<open>
  The body of the \<^verbatim>\<open>while\<close> loop of \<^verbatim>\<open>generate_all_schedules\<close> up to the construction of
  the schedule: from the Monday, the Sunday and the week counter to the schedule of that
  week, with the number of identifiers drawn.
\<close>

definition build_schedule :: "(nat \<Rightarrow> string) \<Rightarrow> nat \<Rightarrow> int \<Rightarrow> int \<Rightarrow> nat \<Rightarrow> nat \<times> WeekSchedule" where
  "build_schedule uuid4 k monday sunday week_counter =
    (let (joan_area', mery_area', paco_area', belen_area') =
           (if week_counter mod 2 = 0
            then (COCINA, COCINA, SALON_PASILLO, SALON_PASILLO)
            else (SALON_PASILLO, SALON_PASILLO, COCINA, COCINA));
         joan_bano' = (week_counter mod 2 = 0);
         mery_bano' = (week_counter mod 2 = 1);
         paco_bano' = (week_counter mod 2 = 0);
         belen_bano' = (week_counter mod 2 = 1);
         ws = isoformat monday;
         st = (k, []);
         st = foldl (append_task uuid4 ws LIMPIEZA_PRINCIPAL) st
                [(JOAN, joan_area'), (MERY, mery_area'), (PACO, paco_area'), (BELEN, belen_area')];
         st = (if joan_bano' then append_task uuid4 ws LIMPIEZA_BANO st (JOAN, BANO_JOAN_MERY) else st);
         st = (if mery_bano' then append_task uuid4 ws LIMPIEZA_BANO st (MERY, BANO_JOAN_MERY) else st);
         st = (if paco_bano' then append_task uuid4 ws LIMPIEZA_BANO st (PACO, BANO_PACO_BELEN) else st);
         st = (if belen_bano' then append_task uuid4 ws LIMPIEZA_BANO st (BELEN, BANO_PACO_BELEN) else st)
     in case st of (k', tasks') \<Rightarrow>
          (Suc k',
           \<lparr>schedule_id = uuid4 k',
            week_start = isoformat monday,
            week_end = isoformat sunday,
            week_number = fst (snd (isocalendar monday)),
            year = date_year monday,
            joan_area = joan_area',
            mery_area = mery_area',
            paco_area = paco_area',
            belen_area = belen_area',
            joan_bano = joan_bano',
            mery_bano = mery_bano',
            paco_bano = paco_bano',
            belen_bano = belen_bano',
            tasks = tasks'\<rparr>))"

text \<open>
  The \<^verbatim>\<open>while current_date <= end_date\<close> loop. Each round computes the Sunday, builds
  and appends the schedule, and steps the date by seven days and the counter by one.
\<close>

function generate_loop ::
  "(nat \<Rightarrow> string) \<Rightarrow> nat \<Rightarrow> int \<Rightarrow> nat \<Rightarrow> WeekSchedule list \<Rightarrow> error + WeekSchedule list" where
  "generate_loop uuid4 k current_date week_counter schedules =
    (if current_date \<le> end_date then
       (case get_sunday_of_week current_date of
          Inl e \<Rightarrow> Inl e
        | Inr sunday \<Rightarrow>
            (case build_schedule uuid4 k current_date sunday week_counter of
               (k', schedule) \<Rightarrow>
                 (case date_add current_date 7 of
                    Inl e \<Rightarrow> Inl e
                  | Inr next_date \<Rightarrow>
                      generate_loop uuid4 k' next_date (week_counter + 1) (schedules @ [schedule]))))
     else Inr schedules)"
  by pat_completeness auto
termination
  by (relation "measure (\<lambda>(uuid4, k, d, w, acc). nat (end_date + 1 - d))")
     (auto simp: date_add_def Let_def split: if_splits)

definition generate_all_schedules :: "(nat \<Rightarrow> string) \<Rightarrow> int \<Rightarrow> error + WeekSchedule list" where
  "generate_all_schedules uuid4 today =
    (case get_next_monday today of
       Inl e \<Rightarrow> Inl e
     | Inr start_date \<Rightarrow> generate_loop uuid4 0 start_date 0 [])"

section \<open>The schedule store and its request handlers\<close>

text \<open>
  The collection \<^verbatim>\<open>db.week_schedules\<close> is the list of its documents in natural
  (insertion) order. The documents are the dictionaries of \<^verbatim>\<open>WeekSchedule\<close> values, so the
  store holds \<open>WeekSchedule\<close> records; the database compares enumeration fields by their
  string values. Storage operations are taken to succeed: a failure of the database
  driver is outside this model.
\<close>

type_synonym store = "WeekSchedule list"

text \<open>
  The \<^verbatim>\<open>$elemMatch\<close> condition of \<^verbatim>\<open>filter_query\<close> on one element of \<^verbatim>\<open>tasks\<close>, and the
  whole filter on one document.
\<close>

definition elem_match :: "TaskCompletionUpdate \<Rightarrow> PersonTask \<Rightarrow> bool" where
  "elem_match u t =
    (PersonType_value (person t) = PersonType_value (upd_person u) \<and>
     AreaType_value (area t) = AreaType_value (upd_area u) \<and>
     TaskType_value (task_type t) = TaskType_value (upd_task_type u))"

definition filter_query :: "TaskCompletionUpdate \<Rightarrow> WeekSchedule \<Rightarrow> bool" where
  "filter_query u s = (week_start s = upd_week_start u \<and> list_ex (elem_match u) (tasks s))"

text \<open>Apply \<open>f\<close> to the first element that satisfies \<open>P\<close>, if there is one.\<close>

fun update_first :: "('a \<Rightarrow> bool) \<Rightarrow> ('a \<Rightarrow> 'a) \<Rightarrow> 'a list \<Rightarrow> 'a list" where
  "update_first P f [] = []"
| "update_first P f (x # xs) = (if P x then f x # xs else x # update_first P f xs)"

text \<open>
  \<^verbatim>\<open>update_one(filter_query, update_query)\<close>: the first document that matches the filter is
  updated, and in it the positional operator \<^verbatim>\<open>$\<close> addresses the first element of
  \<^verbatim>\<open>tasks\<close> that satisfies the \<^verbatim>\<open>$elemMatch\<close>. The result is \<^verbatim>\<open>matched_count\<close> and the
  collection after the update.
\<close>

definition update_query :: "TaskCompletionUpdate \<Rightarrow> string option \<Rightarrow> PersonTask \<Rightarrow> PersonTask" where
  "update_query u completed_at' t = t\<lparr>limpieza_completada := completed u, completed_at := completed_at'\<rparr>"

definition update_one :: "TaskCompletionUpdate \<Rightarrow> string option \<Rightarrow> store \<Rightarrow> nat \<times> store" where
  "update_one u completed_at' db =
    (if list_ex (filter_query u) db
     then (1, update_first (filter_query u)
                (\<lambda>s. s\<lparr>tasks := update_first (elem_match u) (update_query u completed_at') (tasks s)\<rparr>) db)
     else (0, db))"

text \<open>
  The handler \<^verbatim>\<open>complete_task\<close> on a validated body. The parameter \<open>now\<close> is the string
  \<^verbatim>\<open>datetime.now(timezone.utc).isoformat()\<close>. The result is the response (or the
  exception raised) and the collection afterwards.
\<close>

definition complete_task ::
  "string \<Rightarrow> TaskCompletionUpdate \<Rightarrow> store \<Rightarrow> (error + string \<times> bool) \<times> store" where
  "complete_task now task_update db =
    (let completed_at' = (if completed task_update then Some now else None)
     in case update_one task_update completed_at' db of
          (matched_count, db') \<Rightarrow>
            if matched_count = 0 then (Inl (HTTPException 404), db')
            else (Inr (''Tarea actualizada correctamente'', completed task_update), db'))"

text \<open>
  The JSON body of a complete-task request before validation. Pydantic accepts an
  enumeration field when the string is the value of a member, and accepts every string
  for \<^verbatim>\<open>week_start: str\<close>.
\<close>

record request_body =
  body_week_start :: string
  body_person :: string
  body_area :: string
  body_task_type :: string
  body_completed :: bool

definition parse_PersonType :: "string \<Rightarrow> PersonType option" where
  "parse_PersonType s = find (\<lambda>p. PersonType_value p = s) [JOAN, MERY, PACO, BELEN]"

definition parse_AreaType :: "string \<Rightarrow> AreaType option" where
  "parse_AreaType s = find (\<lambda>a. AreaType_value a = s) [COCINA, SALON_PASILLO, BANO_JOAN_MERY, BANO_PACO_BELEN]"

definition parse_TaskType :: "string \<Rightarrow> TaskType option" where
  "parse_TaskType s = find (\<lambda>t. TaskType_value t = s) [LIMPIEZA_PRINCIPAL, LIMPIEZA_BANO]"

definition validate_TaskCompletionUpdate :: "request_body \<Rightarrow> error + TaskCompletionUpdate" where
  "validate_TaskCompletionUpdate b =
    (case parse_PersonType (body_person b) of
       None \<Rightarrow> Inl RequestValidationError
     | Some p \<Rightarrow>
        (case parse_AreaType (body_area b) of
           None \<Rightarrow> Inl RequestValidationError
         | Some a \<Rightarrow>
            (case parse_TaskType (body_task_type b) of
               None \<Rightarrow> Inl RequestValidationError
             | Some tt \<Rightarrow>
                 Inr \<lparr>upd_week_start = body_week_start b, upd_person = p, upd_area = a,
                      upd_task_type = tt, completed = body_completed b\<rparr>)))"

text \<open>\<^verbatim>\<open>POST /complete-task\<close>: validation of the body, then the handler.\<close>

definition post_complete_task ::
  "string \<Rightarrow> request_body \<Rightarrow> store \<Rightarrow> (error + string \<times> bool) \<times> store" where
  "post_complete_task now b db =
    (case validate_TaskCompletionUpdate b of
       Inl e \<Rightarrow> (Inl e, db)
     | Inr task_update \<Rightarrow> complete_task now task_update db)"

text \<open>The HTTP status of a failed request.\<close>

fun status_code :: "error \<Rightarrow> nat" where
  "status_code RequestValidationError = 422"
| "status_code (HTTPException n) = n"
| "status_code OverflowError = 500"

text \<open>
  \<^verbatim>\<open>find_one({"week_start": ws})\<close> is the first document with that \<^verbatim>\<open>week_start\<close>;
  \<^verbatim>\<open>find_one({}, sort=[("week_start", 1)])\<close> is a document whose \<^verbatim>\<open>week_start\<close> is least in
  the order of strings, here the first such document in natural order.
\<close>

definition find_one_week_start :: "string \<Rightarrow> store \<Rightarrow> WeekSchedule option" where
  "find_one_week_start ws db = find (\<lambda>s. week_start s = ws) db"

definition find_one_sorted :: "store \<Rightarrow> WeekSchedule option" where
  "find_one_sorted db =
    (case db of
       [] \<Rightarrow> None
     | s # ss \<Rightarrow> Some (foldl (\<lambda>m x. if week_start x < week_start m then x else m) s ss))"

text \<open>
  The handler \<^verbatim>\<open>get_current_week\<close>; \<open>today\<close> is the current UTC date. An exception other
  than \<^verbatim>\<open>HTTPException\<close> becomes status 500.
\<close>

definition get_current_week :: "int \<Rightarrow> store \<Rightarrow> error + WeekSchedule" where
  "get_current_week today db =
    (case get_monday_of_week today of
       Inl e \<Rightarrow> Inl (HTTPException 500)
     | Inr monday \<Rightarrow>
        (case find_one_week_start (isoformat monday) db of
           Some schedule \<Rightarrow> Inr schedule
         | None \<Rightarrow>
            (case find_one_sorted db of
               None \<Rightarrow> Inl (HTTPException 404)
             | Some schedule \<Rightarrow> Inr schedule)))"


text \<open>
  A source of identifiers for running the generator on concrete dates: it hands out the
  same string every time.
\<close>

definition sample_uuid4 :: "nat \<Rightarrow> string" where
  "sample_uuid4 n = ''00000000-0000-4000-8000-000000000000''"

text \<open>
  A sample collection: the two weeks the generator produces on Monday 2026-06-15, which
  start on 2026-06-22 and 2026-06-29.
\<close>

definition sample_store :: store where
  "sample_store =
    [snd (build_schedule sample_uuid4 0 739789 739795 0),
     snd (build_schedule sample_uuid4 7 739796 739802 1)]"

section \<open>Dates and the loop of the generator\<close>

declare generate_loop.simps [simp del]

lemma end_date_eq: "end_date = 739798"
  by (simp add: end_date_def ymd2ord_def days_before_year_def days_before_month_def
      DAYS_BEFORE_MONTH_def is_leap_def)

lemma weekday_bounds: "0 \<le> weekday d \<and> weekday d < 7"
  by (simp add: weekday_def)

lemma weekday_le: "1 \<le> d \<Longrightarrow> weekday d \<le> d - 1"
  unfolding weekday_def by presburger

lemma weekday_add7: "weekday (d + 7) = weekday d"
  unfolding weekday_def by presburger

lemma weekday_monday: "weekday (d - weekday d) = 0"
  unfolding weekday_def by presburger

lemma get_monday_of_week_valid:
  "valid_date d \<Longrightarrow> get_monday_of_week d = Inr (d - weekday d)"
  using weekday_le [of d] weekday_bounds [of d]
  by (simp add: get_monday_of_week_def date_sub_def date_add_def valid_date_def Let_def)

lemma get_sunday_of_week_in_range:
  "1 \<le> d \<Longrightarrow> d \<le> end_date \<Longrightarrow> get_sunday_of_week d = Inr (d - weekday d + 6)"
  using weekday_le [of d] weekday_bounds [of d]
  by (simp add: get_sunday_of_week_def get_monday_of_week_def date_sub_def date_add_def
      Let_def end_date_eq MAXORDINAL_def)

lemma get_next_monday_eq:
  "get_next_monday today = date_add today (7 - weekday today)"
proof -
  define wd where "wd = weekday today"
  have "0 \<le> wd \<and> wd < 7"
    unfolding wd_def by (rule weekday_bounds)
  then have "(if (7 - wd) mod 7 = 0 then 7 else (7 - wd) mod 7) = 7 - wd"
    by presburger
  then show ?thesis
    unfolding get_next_monday_def Let_def wd_def by simp
qed

lemma get_next_monday_succeeds:
  assumes "valid_date today" and "today \<le> MAXORDINAL - 5"
  shows "get_next_monday today = Inr (today - weekday today + 7)"
proof -
  define wd where "wd = weekday today"
  have b: "0 \<le> wd \<and> wd < 7"
    unfolding wd_def by (rule weekday_bounds)
  have m: "(today - wd + 6) mod 7 = 0"
    unfolding wd_def weekday_def by presburger
  have "today - wd + 7 \<le> MAXORDINAL"
  proof (rule ccontr)
    assume "\<not> today - wd + 7 \<le> MAXORDINAL"
    with assms(2) b have "today - wd \<in> {3652053, 3652054}"
      unfolding MAXORDINAL_def by auto
    with m show False by auto
  qed
  moreover have "0 < today - wd + 7"
    using assms(1) b by (simp add: valid_date_def)
  ultimately show ?thesis
    unfolding get_next_monday_eq date_add_def Let_def wd_def by simp
qed

lemma build_schedule_count: "fst (build_schedule uuid4 k m s w) = k + 7"
  by (simp add: build_schedule_def append_task_def Let_def)

lemma generate_loop_stop:
  "end_date < d \<Longrightarrow> generate_loop uuid4 k d w acc = Inr acc"
  by (simp add: generate_loop.simps)

lemma generate_loop_step:
  assumes "1 \<le> d" and "d \<le> end_date"
  shows "generate_loop uuid4 k d w acc =
         generate_loop uuid4 (k + 7) (d + 7) (Suc w)
           (acc @ [snd (build_schedule uuid4 k d (d - weekday d + 6) w)])"
proof -
  have a: "date_add d 7 = Inr (d + 7)"
    using assms by (simp add: date_add_def Let_def end_date_eq MAXORDINAL_def)
  obtain k' s where b: "build_schedule uuid4 k d (d - weekday d + 6) w = (k', s)"
    by (cases "build_schedule uuid4 k d (d - weekday d + 6) w")
  with build_schedule_count [of uuid4 k d "d - weekday d + 6" w] have c: "k' = k + 7"
    by simp
  show ?thesis
    using assms a b c
    by (subst generate_loop.simps) (simp add: get_sunday_of_week_in_range)
qed


lemma generate_loop_eq:
  "1 \<le> d \<Longrightarrow> n = nat ((end_date + 7 - d) div 7) \<Longrightarrow>
   generate_loop uuid4 k d w acc =
   Inr (acc @ map (\<lambda>j. snd (build_schedule uuid4 (k + 7 * j) (d + 7 * int j)
                              (d + 7 * int j - weekday d + 6) (w + j))) [0..<n])"
proof (induction n arbitrary: d k w acc)
  case 0
  then have "end_date < d" by linarith
  with 0 show ?case by (simp add: generate_loop_stop)
next
  case (Suc n)
  then have le: "d \<le> end_date" by linarith
  have n: "n = nat ((end_date + 7 - (d + 7)) div 7)"
    using Suc.prems by simp
  have wd: "weekday (d + 7) = weekday d" by (rule weekday_add7)
  have "generate_loop uuid4 k d w acc =
        generate_loop uuid4 (k + 7) (d + 7) (Suc w)
          (acc @ [snd (build_schedule uuid4 k d (d - weekday d + 6) w)])"
    using Suc.prems le by (simp add: generate_loop_step)
  also have "\<dots> = Inr ((acc @ [snd (build_schedule uuid4 k d (d - weekday d + 6) w)]) @
      map (\<lambda>j. snd (build_schedule uuid4 (k + 7 + 7 * j) (d + 7 + 7 * int j)
                      (d + 7 + 7 * int j - weekday d + 6) (Suc w + j))) [0..<n])"
    using Suc.IH [of "d + 7", OF _ n] Suc.prems(1) wd by simp
  also have "\<dots> = Inr (acc @ map (\<lambda>j. snd (build_schedule uuid4 (k + 7 * j) (d + 7 * int j)
                              (d + 7 * int j - weekday d + 6) (w + j))) [0..<Suc n])"
    by (simp add: upt_conv_Cons map_Suc_upt [symmetric] add.assoc del: upt_Suc)
  finally show ?case .
qed


lemma get_next_monday_Inr:
  assumes "get_next_monday today = Inr start"
  shows "start = today - weekday today + 7" and "1 \<le> start" and "weekday start = 0"
proof -
  have "date_add today (7 - weekday today) = Inr start"
    using assms by (simp add: get_next_monday_eq)
  then have a: "start = today - weekday today + 7" and b: "1 \<le> start"
    by (auto simp: date_add_def Let_def split: if_splits)
  have "weekday (today - weekday today + 7) = 0"
    using weekday_add7 [of "today - weekday today"] weekday_monday [of today] by simp
  with a b show "start = today - weekday today + 7" and "1 \<le> start" and "weekday start = 0"
    by simp_all
qed

lemma generate_all_schedules_eq:
  assumes "get_next_monday today = Inr start"
  shows "generate_all_schedules uuid4 today =
         Inr (map (\<lambda>j. snd (build_schedule uuid4 (7 * j) (start + 7 * int j)
                              (start + 7 * int j + 6) j))
                [0..<nat ((end_date + 7 - start) div 7)])"
proof -
  from get_next_monday_Inr [OF assms] have "1 \<le> start" and "weekday start = 0"
    by blast+
  then show ?thesis
    using generate_loop_eq [of start "nat ((end_date + 7 - start) div 7)" uuid4 0 0 "[]"] assms
    by (simp add: generate_all_schedules_def)
qed

lemma generate_all_schedules_Inr:
  assumes "generate_all_schedules uuid4 today = Inr xs"
  obtains start where "get_next_monday today = Inr start"
    and "xs = map (\<lambda>j. snd (build_schedule uuid4 (7 * j) (start + 7 * int j)
                              (start + 7 * int j + 6) j))
                [0..<nat ((end_date + 7 - start) div 7)]"
proof (cases "get_next_monday today")
  case (Inl e)
  with assms show ?thesis by (simp add: generate_all_schedules_def)
next
  case (Inr start)
  with assms generate_all_schedules_eq [OF Inr, of uuid4] that show ?thesis by simp
qed

lemma generate_all_schedules_nth:
  assumes "generate_all_schedules uuid4 today = Inr xs" and "i < length xs"
  obtains start where "get_next_monday today = Inr start"
    and "start + 7 * int i \<le> end_date"
    and "length xs = nat ((end_date + 7 - start) div 7)"
    and "xs ! i = snd (build_schedule uuid4 (7 * i) (start + 7 * int i) (start + 7 * int i + 6) i)"
proof -
  from assms(1) obtain start where a: "get_next_monday today = Inr start"
    and b: "xs = map (\<lambda>j. snd (build_schedule uuid4 (7 * j) (start + 7 * int j)
                              (start + 7 * int j + 6) j))
                [0..<nat ((end_date + 7 - start) div 7)]"
    by (rule generate_all_schedules_Inr)
  from b have len: "length xs = nat ((end_date + 7 - start) div 7)" by simp
  with assms(2) have "int i < (end_date + 7 - start) div 7" by linarith
  then have c: "start + 7 * int i \<le> end_date" by linarith
  from b assms(2) len
  have d: "xs ! i = snd (build_schedule uuid4 (7 * i) (start + 7 * int i) (start + 7 * int i + 6) i)"
    by simp
  from a c len d show ?thesis by (rule that)
qed

lemma build_schedule_areas:
  "joan_area (snd (build_schedule uuid4 k m s w)) = (if even w then COCINA else SALON_PASILLO)"
  "mery_area (snd (build_schedule uuid4 k m s w)) = (if even w then COCINA else SALON_PASILLO)"
  "paco_area (snd (build_schedule uuid4 k m s w)) = (if even w then SALON_PASILLO else COCINA)"
  "belen_area (snd (build_schedule uuid4 k m s w)) = (if even w then SALON_PASILLO else COCINA)"
  by (simp_all add: build_schedule_def append_task_def Let_def even_iff_mod_2_eq_zero)

lemma build_schedule_banos:
  "joan_bano (snd (build_schedule uuid4 k m s w)) = even w"
  "mery_bano (snd (build_schedule uuid4 k m s w)) = odd w"
  "paco_bano (snd (build_schedule uuid4 k m s w)) = even w"
  "belen_bano (snd (build_schedule uuid4 k m s w)) = odd w"
  by (simp_all add: build_schedule_def append_task_def Let_def even_iff_mod_2_eq_zero
      odd_iff_mod_2_eq_one)

lemma build_schedule_dates:
  "week_start (snd (build_schedule uuid4 k m s w)) = isoformat m"
  "week_end (snd (build_schedule uuid4 k m s w)) = isoformat s"
  "week_number (snd (build_schedule uuid4 k m s w)) = fst (snd (isocalendar m))"
  "year (snd (build_schedule uuid4 k m s w)) = date_year m"
  by (simp_all add: build_schedule_def append_task_def Let_def)

lemma build_schedule_tasks:
  "tasks (snd (build_schedule uuid4 k m s w)) =
    (if even w
     then [new_PersonTask (uuid4 k) (isoformat m) JOAN COCINA LIMPIEZA_PRINCIPAL,
           new_PersonTask (uuid4 (k + 1)) (isoformat m) MERY COCINA LIMPIEZA_PRINCIPAL,
           new_PersonTask (uuid4 (k + 2)) (isoformat m) PACO SALON_PASILLO LIMPIEZA_PRINCIPAL,
           new_PersonTask (uuid4 (k + 3)) (isoformat m) BELEN SALON_PASILLO LIMPIEZA_PRINCIPAL,
           new_PersonTask (uuid4 (k + 4)) (isoformat m) JOAN BANO_JOAN_MERY LIMPIEZA_BANO,
           new_PersonTask (uuid4 (k + 5)) (isoformat m) PACO BANO_PACO_BELEN LIMPIEZA_BANO]
     else [new_PersonTask (uuid4 k) (isoformat m) JOAN SALON_PASILLO LIMPIEZA_PRINCIPAL,
           new_PersonTask (uuid4 (k + 1)) (isoformat m) MERY SALON_PASILLO LIMPIEZA_PRINCIPAL,
           new_PersonTask (uuid4 (k + 2)) (isoformat m) PACO COCINA LIMPIEZA_PRINCIPAL,
           new_PersonTask (uuid4 (k + 3)) (isoformat m) BELEN COCINA LIMPIEZA_PRINCIPAL,
           new_PersonTask (uuid4 (k + 4)) (isoformat m) MERY BANO_JOAN_MERY LIMPIEZA_BANO,
           new_PersonTask (uuid4 (k + 5)) (isoformat m) BELEN BANO_PACO_BELEN LIMPIEZA_BANO])"
proof -
  have n: "k + 1 = Suc k" "k + 2 = Suc (Suc k)" "k + 3 = Suc (Suc (Suc k))"
    "k + 4 = Suc (Suc (Suc (Suc k)))" "k + 5 = Suc (Suc (Suc (Suc (Suc k))))"
    by simp_all
  show ?thesis
    unfolding n
    by (simp add: build_schedule_def append_task_def Let_def even_iff_mod_2_eq_zero
        odd_iff_mod_2_eq_one)
qed

text \<open>
  Claim C1. In every week of the generated sequence Joan's main area equals Mery's,
  Paco's equals Belen's, and the area of the first pair differs from the area of the
  second; the two areas are the kitchen and the living room.
\<close>

theorem pairs_share_distinct_main_areas:
  assumes "generate_all_schedules uuid4 today = Inr xs" and "i < length xs"
  shows "joan_area (xs ! i) = mery_area (xs ! i) \<and>
         paco_area (xs ! i) = belen_area (xs ! i) \<and>
         joan_area (xs ! i) \<noteq> paco_area (xs ! i) \<and>
         {joan_area (xs ! i), paco_area (xs ! i)} = {COCINA, SALON_PASILLO}"
proof -
  from assms obtain start where
    "xs ! i = snd (build_schedule uuid4 (7 * i) (start + 7 * int i) (start + 7 * int i + 6) i)"
    by (rule generate_all_schedules_nth)
  then show ?thesis
    by (auto simp: build_schedule_areas)
qed

text \<open>
  The generator on Monday 2026-06-15 (ordinal 739782): the next Monday is 2026-06-22 and
  two weeks are produced.
\<close>

lemma next_monday_739782: "get_next_monday 739782 = Inr 739789"
  by (simp add: get_next_monday_def weekday_def date_add_def MAXORDINAL_def Let_def)

lemma generate_739782:
  "generate_all_schedules uuid4 739782 =
     Inr [snd (build_schedule uuid4 0 739789 739795 0), snd (build_schedule uuid4 7 739796 739802 1)]"
  by (simp add: generate_all_schedules_eq [OF next_monday_739782] end_date_eq upt_conv_Cons
      del: upt_Suc)

theorem pairs_share_distinct_main_areas_witness:
  "\<exists>xs. generate_all_schedules (\<lambda>n. ''id'') 739782 = Inr xs \<and> 1 < length xs \<and>
        joan_area (xs ! 1) = SALON_PASILLO \<and> mery_area (xs ! 1) = SALON_PASILLO \<and>
        paco_area (xs ! 1) = COCINA \<and> belen_area (xs ! 1) = COCINA"
proof -
  let ?xs = "[snd (build_schedule (\<lambda>n. ''id'') 0 739789 739795 0),
              snd (build_schedule (\<lambda>n. ''id'') 7 739796 739802 1)]"
  have g: "generate_all_schedules (\<lambda>n. ''id'') 739782 = Inr ?xs"
    by (rule generate_739782)
  have l: "1 < length ?xs" by simp
  from pairs_share_distinct_main_areas [OF g l] g l show ?thesis
    by (intro exI [of _ ?xs]) (simp add: build_schedule_areas)
qed


section \<open>Properties of the generated weeks\<close>

text \<open>
  Claim C2. At every index \<open>i\<close> of the generated sequence, Joan and Paco have bathroom
  duty exactly when \<open>i\<close> is even and Mery and Belen exactly when \<open>i\<close> is odd; so the
  flags of Joan and Mery differ, and those of Paco and Belen differ.
\<close>

theorem bathroom_duty_parity:
  assumes "generate_all_schedules uuid4 today = Inr xs" and "i < length xs"
  shows "joan_bano (xs ! i) = even i \<and> paco_bano (xs ! i) = even i \<and>
         mery_bano (xs ! i) = odd i \<and> belen_bano (xs ! i) = odd i \<and>
         joan_bano (xs ! i) \<noteq> mery_bano (xs ! i) \<and>
         paco_bano (xs ! i) \<noteq> belen_bano (xs ! i)"
proof -
  from assms obtain start where
    "xs ! i = snd (build_schedule uuid4 (7 * i) (start + 7 * int i) (start + 7 * int i + 6) i)"
    by (rule generate_all_schedules_nth)
  then show ?thesis
    by (simp add: build_schedule_banos)
qed

theorem bathroom_duty_parity_witness:
  "\<exists>xs. generate_all_schedules (\<lambda>n. ''id'') 739782 = Inr xs \<and> length xs = 2 \<and>
        joan_bano (xs ! 0) \<and> paco_bano (xs ! 0) \<and> \<not> mery_bano (xs ! 0) \<and> \<not> belen_bano (xs ! 0) \<and>
        \<not> joan_bano (xs ! 1) \<and> \<not> paco_bano (xs ! 1) \<and> mery_bano (xs ! 1) \<and> belen_bano (xs ! 1)"
proof -
  let ?xs = "[snd (build_schedule (\<lambda>n. ''id'') 0 739789 739795 0),
              snd (build_schedule (\<lambda>n. ''id'') 7 739796 739802 1)]"
  have g: "generate_all_schedules (\<lambda>n. ''id'') 739782 = Inr ?xs"
    by (rule generate_739782)
  have l0: "0 < length ?xs" and l1: "1 < length ?xs" by simp_all
  from bathroom_duty_parity [OF g l0] bathroom_duty_parity [OF g l1] g show ?thesis
    by (intro exI [of _ ?xs]) simp
qed

text \<open>
  Claim C5. The tasks of a generated week are, in this order, the four main-cleaning
  tasks of Joan, Mery, Paco and Belen at their main areas of the week, then one
  bathroom-cleaning task for each person whose bathroom flag is set, at the bathroom of
  that person's pair; every task has the completion flag false and no completion time.
\<close>

theorem tasks_of_generated_week:
  assumes "generate_all_schedules uuid4 today = Inr xs" and "i < length xs"
  shows "map (\<lambda>t. (person t, area t, task_type t)) (tasks (xs ! i)) =
           [(JOAN, joan_area (xs ! i), LIMPIEZA_PRINCIPAL),
            (MERY, mery_area (xs ! i), LIMPIEZA_PRINCIPAL),
            (PACO, paco_area (xs ! i), LIMPIEZA_PRINCIPAL),
            (BELEN, belen_area (xs ! i), LIMPIEZA_PRINCIPAL)] @
           (if joan_bano (xs ! i) then [(JOAN, BANO_JOAN_MERY, LIMPIEZA_BANO)] else []) @
           (if mery_bano (xs ! i) then [(MERY, BANO_JOAN_MERY, LIMPIEZA_BANO)] else []) @
           (if paco_bano (xs ! i) then [(PACO, BANO_PACO_BELEN, LIMPIEZA_BANO)] else []) @
           (if belen_bano (xs ! i) then [(BELEN, BANO_PACO_BELEN, LIMPIEZA_BANO)] else [])
         \<and> (\<forall>t \<in> set (tasks (xs ! i)). \<not> limpieza_completada t \<and> completed_at t = None)"
proof -
  from assms obtain start where
    "xs ! i = snd (build_schedule uuid4 (7 * i) (start + 7 * int i) (start + 7 * int i + 6) i)"
    by (rule generate_all_schedules_nth)
  then show ?thesis
    by (simp add: build_schedule_tasks build_schedule_areas build_schedule_banos new_PersonTask_def)
qed

theorem tasks_of_generated_week_witness:
  "\<exists>xs. generate_all_schedules (\<lambda>n. ''id'') 739782 = Inr xs \<and> 1 < length xs \<and>
     map (\<lambda>t. (person t, area t, task_type t)) (tasks (xs ! 1)) =
       [(JOAN, SALON_PASILLO, LIMPIEZA_PRINCIPAL), (MERY, SALON_PASILLO, LIMPIEZA_PRINCIPAL),
        (PACO, COCINA, LIMPIEZA_PRINCIPAL), (BELEN, COCINA, LIMPIEZA_PRINCIPAL),
        (MERY, BANO_JOAN_MERY, LIMPIEZA_BANO), (BELEN, BANO_PACO_BELEN, LIMPIEZA_BANO)] \<and>
     list_all (\<lambda>t. \<not> limpieza_completada t \<and> completed_at t = None) (tasks (xs ! 1))"
proof -
  let ?xs = "[snd (build_schedule (\<lambda>n. ''id'') 0 739789 739795 0),
              snd (build_schedule (\<lambda>n. ''id'') 7 739796 739802 1)]"
  have g: "generate_all_schedules (\<lambda>n. ''id'') 739782 = Inr ?xs"
    by (rule generate_739782)
  have l: "1 < length ?xs" by simp
  from tasks_of_generated_week [OF g l] g l show ?thesis
    by (intro exI [of _ ?xs]) (simp add: build_schedule_areas build_schedule_banos list_all_iff)
qed

text \<open>
  Claim C10. Every task of a generated week carries the \<open>week_start\<close> of its schedule,
  and no two tasks of the week agree on person, area and task type.
\<close>

theorem task_week_start_is_schedule_week_start:
  assumes "generate_all_schedules uuid4 today = Inr xs" and "i < length xs"
  shows "(\<forall>t \<in> set (tasks (xs ! i)). task_week_start t = week_start (xs ! i)) \<and>
         distinct (map (\<lambda>t. (person t, area t, task_type t)) (tasks (xs ! i)))"
proof -
  from assms obtain start where
    "xs ! i = snd (build_schedule uuid4 (7 * i) (start + 7 * int i) (start + 7 * int i + 6) i)"
    by (rule generate_all_schedules_nth)
  then show ?thesis
    by (simp add: build_schedule_tasks build_schedule_dates new_PersonTask_def)
qed

theorem task_week_start_is_schedule_week_start_witness:
  "\<exists>xs. generate_all_schedules (\<lambda>n. ''id'') 739782 = Inr xs \<and> 1 < length xs \<and>
     week_start (xs ! 1) = ''2026-06-29'' \<and>
     map task_week_start (tasks (xs ! 1)) = replicate 6 ''2026-06-29''"
proof -
  let ?xs = "[snd (build_schedule (\<lambda>n. ''id'') 0 739789 739795 0),
              snd (build_schedule (\<lambda>n. ''id'') 7 739796 739802 1)]"
  have g: "generate_all_schedules (\<lambda>n. ''id'') 739782 = Inr ?xs"
    by (rule generate_739782)
  have l: "1 < length ?xs" by simp
  have iso: "isoformat 739796 = ''2026-06-29''"
    by (simp add: isoformat_def fmt_04d_def fmt_02d_def digit_def date_year_def date_month_def
        date_day_def ord2ymd_def Let_def DAYS_BEFORE_MONTH_def DAYS_IN_MONTH_def)
  from task_week_start_is_schedule_week_start [OF g l] g l show ?thesis
    by (intro exI [of _ ?xs])
       (simp add: build_schedule_tasks build_schedule_dates new_PersonTask_def iso
          eval_nat_numeral)
qed


lemmas calendar_defs =
  isoformat_def fmt_04d_def fmt_02d_def digit_def date_year_def date_month_def date_day_def
  ord2ymd_def Let_def DAYS_BEFORE_MONTH_def DAYS_IN_MONTH_def

lemma isoformat_end_date: "isoformat end_date = ''2026-07-01''"
  by (simp add: end_date_eq calendar_defs)

text \<open>
  Claim C3. When the generator returns a non-empty sequence, the \<open>week_start\<close> of its
  first week is the date of the next Monday, which is later than the Monday of the
  current week; on a Monday it is the current date plus seven days.
\<close>

theorem first_week_after_current_week:
  assumes "valid_date today" and "generate_all_schedules uuid4 today = Inr xs" and "xs \<noteq> []"
  shows "\<exists>monday start.
           get_monday_of_week today = Inr monday \<and> get_next_monday today = Inr start \<and>
           week_start (hd xs) = isoformat start \<and> monday < start \<and> start = monday + 7 \<and>
           (weekday today = 0 \<longrightarrow> start = today + 7)"
proof -
  from assms(3) have l: "0 < length xs" by simp
  from assms(2) l obtain start where
    a: "get_next_monday today = Inr start" and
    b: "xs ! 0 = snd (build_schedule uuid4 (7 * 0) (start + 7 * int 0) (start + 7 * int 0 + 6) 0)"
    by (rule generate_all_schedules_nth)
  from b assms(3) have c: "week_start (hd xs) = isoformat start"
    by (simp add: hd_conv_nth build_schedule_dates)
  have d: "get_monday_of_week today = Inr (today - weekday today)"
    using assms(1) by (rule get_monday_of_week_valid)
  have e: "start = today - weekday today + 7"
    using a by (rule get_next_monday_Inr)
  from a c d e show ?thesis by simp
qed

theorem first_week_after_current_week_witness:
  "valid_date 739782 \<and> weekday 739782 = 0 \<and>
   get_monday_of_week 739782 = Inr 739782 \<and> get_next_monday 739782 = Inr 739789 \<and>
   week_start (hd (projr (generate_all_schedules sample_uuid4 739782))) = isoformat 739789 \<and>
   isoformat 739782 = ''2026-06-15'' \<and> isoformat 739789 = ''2026-06-22''"
proof -
  let ?xs = "[snd (build_schedule sample_uuid4 0 739789 739795 0),
              snd (build_schedule sample_uuid4 7 739796 739802 1)]"
  have v: "valid_date 739782" by (simp add: valid_date_def MAXORDINAL_def)
  have g: "generate_all_schedules sample_uuid4 739782 = Inr ?xs"
    by (rule generate_739782)
  have n: "?xs \<noteq> []" by simp
  have m: "get_monday_of_week 739782 = Inr 739782"
    by (simp add: get_monday_of_week_valid [OF v] weekday_def)
  have i: "isoformat 739782 = ''2026-06-15''" "isoformat 739789 = ''2026-06-22''"
    by (simp_all add: calendar_defs)
  from first_week_after_current_week [OF v g n] v g m i show ?thesis
    by (simp add: next_monday_739782 weekday_def)
qed

text \<open>
  Claim C4. Whenever the start Monday is computed, the generator returns a sequence. If
  the start Monday is after the end date 2026-07-01 the sequence is empty. Otherwise it
  is not empty, its last week starts on a Monday that is not after the end date, and
  the Monday seven days later is after the end date.
\<close>

theorem last_week_within_horizon:
  assumes "get_next_monday today = Inr start"
  shows "\<exists>xs. generate_all_schedules uuid4 today = Inr xs \<and>
           isoformat end_date = ''2026-07-01'' \<and>
           (end_date < start \<longrightarrow> xs = []) \<and>
           (start \<le> end_date \<longrightarrow>
              xs \<noteq> [] \<and>
              (let last_monday = start + 7 * (int (length xs) - 1)
               in week_start (last xs) = isoformat last_monday \<and>
                  last_monday \<le> end_date \<and> end_date < last_monday + 7))"
proof -
  let ?n = "nat ((end_date + 7 - start) div 7)"
  let ?f = "\<lambda>j. snd (build_schedule uuid4 (7 * j) (start + 7 * int j) (start + 7 * int j + 6) j)"
  have g: "generate_all_schedules uuid4 today = Inr (map ?f [0..<?n])"
    using assms by (rule generate_all_schedules_eq)
  have empty: "end_date < start \<longrightarrow> map ?f [0..<?n] = []"
    by auto
  have nonempty: "start \<le> end_date \<longrightarrow>
      map ?f [0..<?n] \<noteq> [] \<and>
      (let last_monday = start + 7 * (int (length (map ?f [0..<?n])) - 1)
       in week_start (last (map ?f [0..<?n])) = isoformat last_monday \<and>
          last_monday \<le> end_date \<and> end_date < last_monday + 7)"
  proof
    assume le: "start \<le> end_date"
    then have pos: "0 < ?n" by simp
    then have ne: "[0..<?n] \<noteq> []" by simp
    have l: "last (map ?f [0..<?n]) = ?f (?n - 1)"
      using ne pos by (simp add: last_map last_upt)
    have i: "int (?n - 1) = int ?n - 1"
      using pos by linarith
    have n: "int ?n = (end_date + 7 - start) div 7"
      using le by simp
    define q where "q = (end_date + 7 - start) div 7"
    have q: "7 * q \<le> end_date + 7 - start" "end_date + 7 - start < 7 * q + 7"
      unfolding q_def by presburger+
    have qpos: "0 < q"
      using le unfolding q_def by presburger
    have b1: "start + 7 * (int ?n - 1) \<le> end_date"
      using q(1) qpos unfolding q_def [symmetric] by simp
    have b2: "end_date < start + 7 * (int ?n - 1) + 7"
      using q(2) qpos unfolding q_def [symmetric] by simp
    from ne l i b1 b2
    show "map ?f [0..<?n] \<noteq> [] \<and>
      (let last_monday = start + 7 * (int (length (map ?f [0..<?n])) - 1)
       in week_start (last (map ?f [0..<?n])) = isoformat last_monday \<and>
          last_monday \<le> end_date \<and> end_date < last_monday + 7)"
      by (simp add: Let_def build_schedule_dates)
  qed
  from g empty nonempty isoformat_end_date show ?thesis by blast
qed

theorem last_week_within_horizon_witness:
  "get_next_monday 739782 = Inr 739789 \<and> 739789 \<le> end_date \<and>
   length (projr (generate_all_schedules sample_uuid4 739782)) = 2 \<and>
   week_start (last (projr (generate_all_schedules sample_uuid4 739782))) = isoformat 739796 \<and>
   isoformat 739796 = ''2026-06-29'' \<and> 739796 \<le> end_date \<and> end_date < 739796 + 7 \<and>
   get_next_monday 739797 = Inr 739803 \<and> end_date < 739803 \<and>
   generate_all_schedules sample_uuid4 739797 = Inr []"
proof -
  have a: "get_next_monday 739782 = Inr 739789"
    by (rule next_monday_739782)
  have b: "get_next_monday 739797 = Inr 739803"
    by (simp add: get_next_monday_def weekday_def date_add_def MAXORDINAL_def Let_def)
  have g: "generate_all_schedules sample_uuid4 739782 =
     Inr [snd (build_schedule sample_uuid4 0 739789 739795 0),
          snd (build_schedule sample_uuid4 7 739796 739802 1)]"
    by (rule generate_739782)
  have i: "isoformat 739796 = ''2026-06-29''"
    by (simp add: calendar_defs)
  from last_week_within_horizon [OF a, of sample_uuid4]
       last_week_within_horizon [OF b, of sample_uuid4] a b g i
  show ?thesis
    by (simp add: end_date_eq build_schedule_dates)
qed


text \<open>
  The generator on Monday 2025-12-22 (ordinal 739607): the first week starts on Monday
  2025-12-29, which lies in ISO week 1 of ISO year 2026.
\<close>

lemma next_monday_739607: "get_next_monday 739607 = Inr 739614"
  by (simp add: get_next_monday_def weekday_def date_add_def MAXORDINAL_def Let_def)

lemma generate_739607_hd:
  "\<not> isl (generate_all_schedules uuid4 739607) \<and>
   hd (projr (generate_all_schedules uuid4 739607)) = snd (build_schedule uuid4 0 739614 739620 0)"
  by (simp add: generate_all_schedules_eq [OF next_monday_739607] end_date_eq hd_map hd_upt)

lemma ymd_739614: "ord2ymd 739614 = (2025, 12, 29)"
  by (simp add: ord2ymd_def Let_def DAYS_BEFORE_MONTH_def DAYS_IN_MONTH_def)

lemma isocalendar_739614: "isocalendar 739614 = (2026, 1, 1)"
  by (simp add: isocalendar_def date_year_def date_month_def date_day_def ymd_739614
      isoweek1monday_def ymd2ord_def days_before_year_def days_before_month_def
      DAYS_BEFORE_MONTH_def is_leap_def Let_def)

text \<open>
  Claim C6 as stated fails: generated on 2025-12-22, the first week starts on
  2025-12-29, whose ISO year is 2026, and its \<open>year\<close> field is 2025.
\<close>

theorem year_field_is_not_iso_year:
  "\<not> isl (generate_all_schedules sample_uuid4 739607) \<and>
   week_start (hd (projr (generate_all_schedules sample_uuid4 739607))) = ''2025-12-29'' \<and>
   isoformat 739614 = ''2025-12-29'' \<and>
   week_number (hd (projr (generate_all_schedules sample_uuid4 739607))) = 1 \<and>
   year (hd (projr (generate_all_schedules sample_uuid4 739607))) = 2025 \<and>
   fst (isocalendar 739614) = 2026 \<and>
   year (hd (projr (generate_all_schedules sample_uuid4 739607))) \<noteq> fst (isocalendar 739614)"
  by (simp add: generate_739607_hd build_schedule_dates isocalendar_739614 isoformat_def
      date_year_def date_month_def date_day_def ymd_739614 fmt_04d_def fmt_02d_def digit_def)

text \<open>
  Claim C6, amended. Week \<open>i\<close> of the generated sequence belongs to the Monday
  \<open>start + 7 * i\<close>: its \<open>week_start\<close> is that Monday, its \<open>week_end\<close> is the Monday plus six
  days, its \<open>week_number\<close> is the ISO week number of the Monday, and its \<open>year\<close> is the
  calendar year of the Monday.
\<close>

theorem week_end_number_and_year:
  assumes "generate_all_schedules uuid4 today = Inr xs" and "i < length xs"
  shows "\<exists>start. get_next_monday today = Inr start \<and>
           (let monday = start + 7 * int i
            in weekday monday = 0 \<and>
               week_start (xs ! i) = isoformat monday \<and>
               week_end (xs ! i) = isoformat (monday + 6) \<and>
               week_number (xs ! i) = fst (snd (isocalendar monday)) \<and>
               year (xs ! i) = date_year monday)"
proof -
  from assms obtain start where
    a: "get_next_monday today = Inr start" and
    b: "xs ! i = snd (build_schedule uuid4 (7 * i) (start + 7 * int i) (start + 7 * int i + 6) i)"
    by (rule generate_all_schedules_nth)
  from a have "weekday start = 0" by (rule get_next_monday_Inr)
  then have "weekday (start + 7 * int i) = 0"
    unfolding weekday_def by presburger
  with a b show ?thesis
    by (simp add: Let_def build_schedule_dates)
qed

theorem week_end_number_and_year_witness:
  "get_next_monday 739782 = Inr 739789 \<and>
   length (projr (generate_all_schedules sample_uuid4 739782)) = 2 \<and>
   week_start (projr (generate_all_schedules sample_uuid4 739782) ! 1) = ''2026-06-29'' \<and>
   week_end (projr (generate_all_schedules sample_uuid4 739782) ! 1) = ''2026-07-05'' \<and>
   week_number (projr (generate_all_schedules sample_uuid4 739782) ! 1) = 27 \<and>
   year (projr (generate_all_schedules sample_uuid4 739782) ! 1) = 2026"
proof -
  let ?xs = "[snd (build_schedule sample_uuid4 0 739789 739795 0),
              snd (build_schedule sample_uuid4 7 739796 739802 1)]"
  have g: "generate_all_schedules sample_uuid4 739782 = Inr ?xs"
    by (rule generate_739782)
  have l: "1 < length ?xs" by simp
  have y: "ord2ymd 739796 = (2026, 6, 29)" "ord2ymd 739802 = (2026, 7, 5)"
    by (simp_all add: ord2ymd_def Let_def DAYS_BEFORE_MONTH_def DAYS_IN_MONTH_def)
  have c: "isocalendar 739796 = (2026, 27, 1)"
    by (simp add: isocalendar_def date_year_def date_month_def date_day_def y
      isoweek1monday_def ymd2ord_def days_before_year_def days_before_month_def
      DAYS_BEFORE_MONTH_def is_leap_def Let_def)
  have i: "isoformat 739796 = ''2026-06-29''" "isoformat 739802 = ''2026-07-05''"
    by (simp_all add: isoformat_def date_year_def date_month_def date_day_def y
        fmt_04d_def fmt_02d_def digit_def)
  from week_end_number_and_year [OF g l] g i c y show ?thesis
    by (simp add: next_monday_739782 date_year_def)
qed


section \<open>Properties of the request handlers\<close>

lemma sample_store_generated: "generate_all_schedules sample_uuid4 739782 = Inr sample_store"
  unfolding sample_store_def by (rule generate_739782)

lemma isoformat_739789: "isoformat 739789 = ''2026-06-22''"
  by (simp add: calendar_defs)

lemma isoformat_739796: "isoformat 739796 = ''2026-06-29''"
  by (simp add: calendar_defs)

lemmas sample_store_simps =
  sample_store_def build_schedule_tasks build_schedule_dates build_schedule_areas
  build_schedule_banos new_PersonTask_def isoformat_739789 isoformat_739796

lemma PersonType_value_inj [simp]: "PersonType_value p = PersonType_value q \<longleftrightarrow> p = q"
  by (cases p; cases q) simp_all

lemma AreaType_value_inj [simp]: "AreaType_value a = AreaType_value b \<longleftrightarrow> a = b"
  by (cases a; cases b) simp_all

lemma TaskType_value_inj [simp]: "TaskType_value s = TaskType_value t \<longleftrightarrow> s = t"
  by (cases s; cases t) simp_all

lemma elem_match_iff:
  "elem_match u t \<longleftrightarrow>
     person t = upd_person u \<and> area t = upd_area u \<and> task_type t = upd_task_type u"
  by (simp add: elem_match_def)

lemma update_first_nth:
  "list_ex P xs \<Longrightarrow>
   \<exists>i<length xs. P (xs ! i) \<and> (\<forall>j<i. \<not> P (xs ! j)) \<and> update_first P f xs = xs[i := f (xs ! i)]"
proof (induction xs)
  case Nil
  then show ?case by simp
next
  case (Cons x xs)
  show ?case
  proof (cases "P x")
    case True
    then show ?thesis by (intro exI [of _ 0]) simp
  next
    case False
    with Cons.prems have "list_ex P xs" by simp
    from Cons.IH [OF this] obtain i where
      i: "i < length xs" "P (xs ! i)" "\<forall>j<i. \<not> P (xs ! j)" "update_first P f xs = xs[i := f (xs ! i)]"
      by blast
    have "\<forall>j<Suc i. \<not> P ((x # xs) ! j)"
      using False i(3) by (auto simp: less_Suc_eq_0_disj)
    with i False show ?thesis
      by (intro exI [of _ "Suc i"]) simp
  qed
qed

lemma parse_PersonType_Some: "parse_PersonType s = Some p \<longleftrightarrow> PersonType_value p = s"
  by (cases p) (auto simp: parse_PersonType_def)

lemma parse_AreaType_Some: "parse_AreaType s = Some a \<longleftrightarrow> AreaType_value a = s"
  by (cases a) (auto simp: parse_AreaType_def)

lemma parse_TaskType_Some: "parse_TaskType s = Some t \<longleftrightarrow> TaskType_value t = s"
  by (cases t) (auto simp: parse_TaskType_def)

lemma parse_PersonType_None: "parse_PersonType s = None \<longleftrightarrow> s \<notin> range PersonType_value"
proof -
  have "parse_PersonType s = None \<longleftrightarrow> (\<forall>p. parse_PersonType s \<noteq> Some p)" by auto
  also have "\<dots> \<longleftrightarrow> s \<notin> range PersonType_value"
    unfolding parse_PersonType_Some by auto
  finally show ?thesis .
qed

lemma parse_AreaType_None: "parse_AreaType s = None \<longleftrightarrow> s \<notin> range AreaType_value"
proof -
  have "parse_AreaType s = None \<longleftrightarrow> (\<forall>p. parse_AreaType s \<noteq> Some p)" by auto
  also have "\<dots> \<longleftrightarrow> s \<notin> range AreaType_value"
    unfolding parse_AreaType_Some by auto
  finally show ?thesis .
qed

lemma parse_TaskType_None: "parse_TaskType s = None \<longleftrightarrow> s \<notin> range TaskType_value"
proof -
  have "parse_TaskType s = None \<longleftrightarrow> (\<forall>p. parse_TaskType s \<noteq> Some p)" by auto
  also have "\<dots> \<longleftrightarrow> s \<notin> range TaskType_value"
    unfolding parse_TaskType_Some by auto
  finally show ?thesis .
qed

lemma find_one_sorted_least:
  "foldl (\<lambda>m x. if week_start x < week_start m then x else m) s ss \<in> set (s # ss) \<and>
   (\<forall>x \<in> set (s # ss).
      week_start (foldl (\<lambda>m x. if week_start x < week_start m then x else m) s ss) \<le> week_start x)"
proof (induction ss arbitrary: s)
  case Nil
  then show ?case by simp
next
  case (Cons y ss)
  let ?s' = "if week_start y < week_start s then y else s"
  from Cons.IH [of ?s'] show ?case
    by (auto split: if_splits)
qed


lemma update_one_matched:
  assumes "list_ex (filter_query u) db"
  shows "\<exists>i j. i < length db \<and> j < length (tasks (db ! i)) \<and>
           filter_query u (db ! i) \<and> (\<forall>i'<i. \<not> filter_query u (db ! i')) \<and>
           elem_match u (tasks (db ! i) ! j) \<and> (\<forall>j'<j. \<not> elem_match u (tasks (db ! i) ! j')) \<and>
           update_one u c db =
             (1, db[i := (db ! i)\<lparr>tasks := (tasks (db ! i))[j := update_query u c (tasks (db ! i) ! j)]\<rparr>])"
proof -
  let ?f = "\<lambda>s. s\<lparr>tasks := update_first (elem_match u) (update_query u c) (tasks s)\<rparr>"
  from update_first_nth [OF assms, of ?f] obtain i where
    i: "i < length db" "filter_query u (db ! i)" "\<forall>i'<i. \<not> filter_query u (db ! i')"
       "update_first (filter_query u) ?f db = db[i := ?f (db ! i)]"
    by blast
  from i(2) have "list_ex (elem_match u) (tasks (db ! i))"
    by (simp add: filter_query_def)
  from update_first_nth [OF this, of "update_query u c"] obtain j where
    j: "j < length (tasks (db ! i))" "elem_match u (tasks (db ! i) ! j)"
       "\<forall>j'<j. \<not> elem_match u (tasks (db ! i) ! j')"
       "update_first (elem_match u) (update_query u c) (tasks (db ! i)) =
          (tasks (db ! i))[j := update_query u c (tasks (db ! i) ! j)]"
    by blast
  have "update_one u c db =
      (1, db[i := (db ! i)\<lparr>tasks := (tasks (db ! i))[j := update_query u c (tasks (db ! i) ! j)]\<rparr>])"
    using assms i(4) j(4) by (simp add: update_one_def)
  with i(1-3) j(1-3) show ?thesis by blast
qed

lemma complete_task_result:
  assumes "complete_task now u db = (r, db')"
  shows "(\<not> list_ex (filter_query u) db \<and> r = Inl (HTTPException 404) \<and> db' = db) \<or>
         (list_ex (filter_query u) db \<and> r = Inr (''Tarea actualizada correctamente'', completed u))"
  using assms by (auto simp: complete_task_def update_one_def Let_def split: if_splits)

text \<open>
  Claim C7. A complete-task request either matches nothing, and then the answer is 404
  and the collection is unchanged, or it succeeds, and then the collection changes in
  exactly one task: the first task matching person, area and task type in the first
  week with the given \<open>week_start\<close>. Of that task only the completion flag and the
  completion time change: the flag becomes the requested value, the time becomes the
  current time when the request completes the task and becomes unset when it does not.
\<close>

theorem complete_task_changes_one_task:
  assumes "complete_task now u db = (r, db')"
  shows "(r = Inl (HTTPException 404) \<and> db' = db \<and> \<not> list_ex (filter_query u) db) \<or>
         (r = Inr (''Tarea actualizada correctamente'', completed u) \<and>
          (\<exists>i j. i < length db \<and> j < length (tasks (db ! i)) \<and>
             week_start (db ! i) = upd_week_start u \<and>
             person (tasks (db ! i) ! j) = upd_person u \<and>
             area (tasks (db ! i) ! j) = upd_area u \<and>
             task_type (tasks (db ! i) ! j) = upd_task_type u \<and>
             (\<forall>i'<i. \<not> filter_query u (db ! i')) \<and>
             (\<forall>j'<j. \<not> elem_match u (tasks (db ! i) ! j')) \<and>
             db' = db[i := (db ! i)\<lparr>tasks := (tasks (db ! i))[j := (tasks (db ! i) ! j)
                       \<lparr>limpieza_completada := completed u,
                        completed_at := (if completed u then Some now else None)\<rparr>]\<rparr>] \<and>
             limpieza_completada (tasks (db' ! i) ! j) = completed u \<and>
             (completed u \<longrightarrow> completed_at (tasks (db' ! i) ! j) = Some now) \<and>
             (\<not> completed u \<longrightarrow> completed_at (tasks (db' ! i) ! j) = None)))"
proof (cases "list_ex (filter_query u) db")
  case False
  with assms show ?thesis
    by (auto simp: complete_task_def update_one_def Let_def)
next
  case True
  let ?c = "if completed u then Some now else None"
  from update_one_matched [OF True, of ?c] obtain i j where
    ij: "i < length db" "j < length (tasks (db ! i))" "filter_query u (db ! i)"
        "\<forall>i'<i. \<not> filter_query u (db ! i')" "elem_match u (tasks (db ! i) ! j)"
        "\<forall>j'<j. \<not> elem_match u (tasks (db ! i) ! j')"
        "update_one u ?c db =
           (1, db[i := (db ! i)\<lparr>tasks := (tasks (db ! i))[j := update_query u ?c (tasks (db ! i) ! j)]\<rparr>])"
    by blast
  from assms ij(7) have r: "r = Inr (''Tarea actualizada correctamente'', completed u)"
    and d: "db' = db[i := (db ! i)\<lparr>tasks := (tasks (db ! i))[j := update_query u ?c (tasks (db ! i) ! j)]\<rparr>]"
    by (simp_all add: complete_task_def Let_def)
  from d ij(1,2) have t: "tasks (db' ! i) ! j = update_query u ?c (tasks (db ! i) ! j)"
    by simp
  have "i < length db \<and> j < length (tasks (db ! i)) \<and>
             week_start (db ! i) = upd_week_start u \<and>
             person (tasks (db ! i) ! j) = upd_person u \<and>
             area (tasks (db ! i) ! j) = upd_area u \<and>
             task_type (tasks (db ! i) ! j) = upd_task_type u \<and>
             (\<forall>i'<i. \<not> filter_query u (db ! i')) \<and>
             (\<forall>j'<j. \<not> elem_match u (tasks (db ! i) ! j')) \<and>
             db' = db[i := (db ! i)\<lparr>tasks := (tasks (db ! i))[j := (tasks (db ! i) ! j)
                       \<lparr>limpieza_completada := completed u,
                        completed_at := (if completed u then Some now else None)\<rparr>]\<rparr>] \<and>
             limpieza_completada (tasks (db' ! i) ! j) = completed u \<and>
             (completed u \<longrightarrow> completed_at (tasks (db' ! i) ! j) = Some now) \<and>
             (\<not> completed u \<longrightarrow> completed_at (tasks (db' ! i) ! j) = None)"
    using ij(1-6) d t
    by (simp add: filter_query_def elem_match_iff update_query_def)
  with r show ?thesis by blast
qed


theorem complete_task_changes_one_task_witness:
  "fst (complete_task ''2026-06-23T09:30:00+00:00''
         \<lparr>upd_week_start = ''2026-06-22'', upd_person = PACO, upd_area = SALON_PASILLO,
          upd_task_type = LIMPIEZA_PRINCIPAL, completed = True\<rparr> sample_store)
     = Inr (''Tarea actualizada correctamente'', True) \<and>
   snd (complete_task ''2026-06-23T09:30:00+00:00''
         \<lparr>upd_week_start = ''2026-06-22'', upd_person = PACO, upd_area = SALON_PASILLO,
          upd_task_type = LIMPIEZA_PRINCIPAL, completed = True\<rparr> sample_store)
     = sample_store[0 := (sample_store ! 0)\<lparr>tasks := (tasks (sample_store ! 0))[2 :=
         (tasks (sample_store ! 0) ! 2)\<lparr>limpieza_completada := True,
            completed_at := Some ''2026-06-23T09:30:00+00:00''\<rparr>]\<rparr>] \<and>
   complete_task ''2026-06-23T09:30:00+00:00''
         \<lparr>upd_week_start = ''2026-07-06'', upd_person = PACO, upd_area = SALON_PASILLO,
          upd_task_type = LIMPIEZA_PRINCIPAL, completed = False\<rparr> sample_store
     = (Inl (HTTPException 404), sample_store)"
proof -
  let ?now = "''2026-06-23T09:30:00+00:00''"
  let ?u = "\<lparr>upd_week_start = ''2026-06-22'', upd_person = PACO, upd_area = SALON_PASILLO,
          upd_task_type = LIMPIEZA_PRINCIPAL, completed = True\<rparr>"
  let ?v = "\<lparr>upd_week_start = ''2026-07-06'', upd_person = PACO, upd_area = SALON_PASILLO,
          upd_task_type = LIMPIEZA_PRINCIPAL, completed = False\<rparr>"
  have a: "complete_task ?now ?u sample_store =
    (fst (complete_task ?now ?u sample_store), snd (complete_task ?now ?u sample_store))"
    by simp
  have b: "complete_task ?now ?v sample_store =
    (fst (complete_task ?now ?v sample_store), snd (complete_task ?now ?v sample_store))"
    by simp
  have m: "list_ex (filter_query ?u) sample_store"
    by (simp add: filter_query_def elem_match_def sample_store_simps)
  have n: "\<not> list_ex (filter_query ?v) sample_store"
    by (simp add: filter_query_def elem_match_def sample_store_simps)
  have e: "complete_task ?now ?u sample_store =
     (Inr (''Tarea actualizada correctamente'', True),
      sample_store[0 := (sample_store ! 0)\<lparr>tasks := (tasks (sample_store ! 0))[2 :=
         (tasks (sample_store ! 0) ! 2)\<lparr>limpieza_completada := True,
            completed_at := Some ?now\<rparr>]\<rparr>])"
    by (simp add: complete_task_def update_one_def update_query_def filter_query_def
        elem_match_def sample_store_simps)
  have f: "complete_task ?now ?v sample_store = (Inl (HTTPException 404), sample_store)"
    using n by (simp add: complete_task_def update_one_def)
  from complete_task_changes_one_task [OF a] complete_task_changes_one_task [OF b]
  show ?thesis
    unfolding e f by simp
qed

text \<open>
  Claim C8 as stated fails: a body whose \<open>week_start\<close> is not a date and whose other
  fields are enumerated values passes validation, and on the generated collection the
  answer is 404, not 422.
\<close>

lemma length_isoformat: "length (isoformat d) = 10"
  by (simp add: isoformat_def fmt_04d_def fmt_02d_def)

theorem invalid_week_start_is_not_rejected:
  "''invalid-date'' \<notin> range isoformat \<and>
   post_complete_task ''2026-06-23T09:30:00+00:00''
     \<lparr>body_week_start = ''invalid-date'', body_person = ''joan'', body_area = ''cocina'',
      body_task_type = ''limpieza_principal'', body_completed = True\<rparr> sample_store
     = (Inl (HTTPException 404), sample_store) \<and>
   status_code (HTTPException 404) \<noteq> 422"
proof -
  have "''invalid-date'' \<notin> range isoformat"
  proof
    assume "''invalid-date'' \<in> range isoformat"
    then obtain d where "''invalid-date'' = isoformat d" by blast
    then have "length ''invalid-date'' = length (isoformat d)" by simp
    then show False by (simp add: length_isoformat)
  qed
  then show ?thesis
    by (simp add: post_complete_task_def validate_TaskCompletionUpdate_def parse_PersonType_def
        parse_AreaType_def parse_TaskType_def complete_task_def update_one_def filter_query_def
        sample_store_simps)
qed

text \<open>
  Claim C8, amended. The request is rejected with a validation error (status 422)
  exactly when person, area or task type is not the value of an enumeration member,
  whatever the string \<open>week_start\<close> is. It fails with status 404 exactly when the three
  fields are enumerated values and no week with the given \<open>week_start\<close> has a task
  matching them. These are the only failures, and a failed request leaves the collection
  unchanged.
\<close>

theorem complete_task_failures:
  assumes "post_complete_task now b db = (r, db')"
  shows "(r = Inl RequestValidationError \<longleftrightarrow>
            body_person b \<notin> range PersonType_value \<or> body_area b \<notin> range AreaType_value \<or>
            body_task_type b \<notin> range TaskType_value) \<and>
         (r = Inl (HTTPException 404) \<longleftrightarrow>
            body_person b \<in> range PersonType_value \<and> body_area b \<in> range AreaType_value \<and>
            body_task_type b \<in> range TaskType_value \<and>
            \<not> (\<exists>s \<in> set db. week_start s = body_week_start b \<and>
                 (\<exists>t \<in> set (tasks s). PersonType_value (person t) = body_person b \<and>
                    AreaType_value (area t) = body_area b \<and>
                    TaskType_value (task_type t) = body_task_type b))) \<and>
         (\<forall>e. r = Inl e \<longrightarrow>
            db' = db \<and> (e = RequestValidationError \<or> e = HTTPException 404) \<and>
            (status_code e = 422 \<or> status_code e = 404))"
proof (cases "validate_TaskCompletionUpdate b")
  case (Inl e)
  then have e: "e = RequestValidationError"
    by (auto simp: validate_TaskCompletionUpdate_def split: option.splits)
  from Inl have bad: "body_person b \<notin> range PersonType_value \<or>
      body_area b \<notin> range AreaType_value \<or> body_task_type b \<notin> range TaskType_value"
    unfolding parse_PersonType_None [symmetric] parse_AreaType_None [symmetric]
      parse_TaskType_None [symmetric]
    by (auto simp: validate_TaskCompletionUpdate_def split: option.splits)
  from assms Inl e have "r = Inl RequestValidationError" and "db' = db"
    by (simp_all add: post_complete_task_def)
  with bad show ?thesis by auto
next
  case (Inr u)
  then obtain p a tt where
    p: "parse_PersonType (body_person b) = Some p" and
    a: "parse_AreaType (body_area b) = Some a" and
    tt: "parse_TaskType (body_task_type b) = Some tt" and
    u: "u = \<lparr>upd_week_start = body_week_start b, upd_person = p, upd_area = a,
              upd_task_type = tt, completed = body_completed b\<rparr>"
    by (auto simp: validate_TaskCompletionUpdate_def split: option.splits)
  from p a tt have v: "PersonType_value p = body_person b" "AreaType_value a = body_area b"
    "TaskType_value tt = body_task_type b"
    by (simp_all add: parse_PersonType_Some parse_AreaType_Some parse_TaskType_Some)
  then have good: "body_person b \<in> range PersonType_value"
    "body_area b \<in> range AreaType_value" "body_task_type b \<in> range TaskType_value"
    by (metis rangeI)+
  have match: "list_ex (filter_query u) db \<longleftrightarrow>
      (\<exists>s \<in> set db. week_start s = body_week_start b \<and>
         (\<exists>t \<in> set (tasks s). PersonType_value (person t) = body_person b \<and>
            AreaType_value (area t) = body_area b \<and>
            TaskType_value (task_type t) = body_task_type b))"
    using v by (simp add: list_ex_iff filter_query_def elem_match_def u)
  from assms Inr have c: "complete_task now u db = (r, db')"
    by (simp add: post_complete_task_def)
  from complete_task_result [OF c] good match show ?thesis
    by auto
qed


theorem complete_task_failures_witness:
  "post_complete_task ''2026-06-23T09:30:00+00:00''
     \<lparr>body_week_start = ''2026-06-22'', body_person = ''nonexistent'', body_area = ''cocina'',
      body_task_type = ''limpieza_principal'', body_completed = True\<rparr> sample_store
     = (Inl RequestValidationError, sample_store) \<and>
   status_code RequestValidationError = 422 \<and>
   ''nonexistent'' \<notin> range PersonType_value \<and>
   post_complete_task ''2026-06-23T09:30:00+00:00''
     \<lparr>body_week_start = ''2026-07-06'', body_person = ''joan'', body_area = ''cocina'',
      body_task_type = ''limpieza_principal'', body_completed = True\<rparr> sample_store
     = (Inl (HTTPException 404), sample_store) \<and>
   fst (post_complete_task ''2026-06-23T09:30:00+00:00''
     \<lparr>body_week_start = ''2026-06-22'', body_person = ''joan'', body_area = ''cocina'',
      body_task_type = ''limpieza_principal'', body_completed = True\<rparr> sample_store)
     = Inr (''Tarea actualizada correctamente'', True)"
proof -
  let ?now = "''2026-06-23T09:30:00+00:00''"
  let ?b1 = "\<lparr>body_week_start = ''2026-06-22'', body_person = ''nonexistent'',
      body_area = ''cocina'', body_task_type = ''limpieza_principal'', body_completed = True\<rparr>"
  let ?b2 = "\<lparr>body_week_start = ''2026-07-06'', body_person = ''joan'', body_area = ''cocina'',
      body_task_type = ''limpieza_principal'', body_completed = True\<rparr>"
  let ?b3 = "\<lparr>body_week_start = ''2026-06-22'', body_person = ''joan'', body_area = ''cocina'',
      body_task_type = ''limpieza_principal'', body_completed = True\<rparr>"
  have e1: "post_complete_task ?now ?b1 sample_store = (Inl RequestValidationError, sample_store)"
    by (simp add: post_complete_task_def validate_TaskCompletionUpdate_def parse_PersonType_def)
  have e2: "post_complete_task ?now ?b2 sample_store = (Inl (HTTPException 404), sample_store)"
    by (simp add: post_complete_task_def validate_TaskCompletionUpdate_def parse_PersonType_def
        parse_AreaType_def parse_TaskType_def complete_task_def update_one_def filter_query_def
        sample_store_simps)
  have e3: "fst (post_complete_task ?now ?b3 sample_store) =
      Inr (''Tarea actualizada correctamente'', True)"
    by (simp add: post_complete_task_def validate_TaskCompletionUpdate_def parse_PersonType_def
        parse_AreaType_def parse_TaskType_def complete_task_def update_one_def filter_query_def
        elem_match_def sample_store_simps)
  have p: "''nonexistent'' \<notin> range PersonType_value"
  proof
    assume "''nonexistent'' \<in> range PersonType_value"
    then obtain q where "''nonexistent'' = PersonType_value q" by blast
    then show False by (cases q) simp_all
  qed
  have s: "status_code RequestValidationError = 422" by simp
  from complete_task_failures [OF e1] complete_task_failures [OF e2]
  show ?thesis
    unfolding e1 e2 e3 s using p by blast
qed

lemma find_one_week_start_Some:
  "find_one_week_start ws db = Some s \<Longrightarrow> s \<in> set db \<and> week_start s = ws"
  by (auto simp: find_one_week_start_def find_Some_iff)

lemma find_one_week_start_None:
  "find_one_week_start ws db = None \<longleftrightarrow> \<not> (\<exists>s \<in> set db. week_start s = ws)"
  by (auto simp: find_one_week_start_def find_None_iff)

lemma find_one_sorted_None: "find_one_sorted db = None \<longleftrightarrow> db = []"
  by (simp add: find_one_sorted_def split: list.splits)

lemma find_one_sorted_Some:
  "find_one_sorted db = Some s \<Longrightarrow> s \<in> set db \<and> (\<forall>x \<in> set db. week_start s \<le> week_start x)"
  using find_one_sorted_least
  by (auto simp: find_one_sorted_def split: list.splits)


text \<open>
  Claim C9. With the Monday of the current week written as an ISO date string: if a
  stored week has that \<open>week_start\<close>, such a week is returned; if none has it and the
  collection is not empty, a stored week is returned whose \<open>week_start\<close> is least among
  all stored weeks; the request fails with status 404 exactly when the collection is
  empty, and it fails in no other way.
\<close>

theorem get_current_week_result:
  assumes "valid_date today"
  shows "get_monday_of_week today = Inr (today - weekday today) \<and>
         ((\<exists>s \<in> set db. week_start s = isoformat (today - weekday today)) \<longrightarrow>
            (\<exists>s. get_current_week today db = Inr s \<and> s \<in> set db \<and>
                 week_start s = isoformat (today - weekday today))) \<and>
         (\<not> (\<exists>s \<in> set db. week_start s = isoformat (today - weekday today)) \<and> db \<noteq> [] \<longrightarrow>
            (\<exists>s. get_current_week today db = Inr s \<and> s \<in> set db \<and>
                 (\<forall>x \<in> set db. week_start s \<le> week_start x))) \<and>
         (get_current_week today db = Inl (HTTPException 404) \<longleftrightarrow> db = []) \<and>
         (\<forall>e. get_current_week today db = Inl e \<longrightarrow> e = HTTPException 404 \<and> db = [])"
proof -
  let ?ws = "isoformat (today - weekday today)"
  have m: "get_monday_of_week today = Inr (today - weekday today)"
    using assms by (rule get_monday_of_week_valid)
  show ?thesis
  proof (cases "find_one_week_start ?ws db")
    case (Some s)
    then have s: "s \<in> set db" "week_start s = ?ws"
      by (auto dest: find_one_week_start_Some)
    then have ne: "db \<noteq> []" by auto
    have r: "get_current_week today db = Inr s"
      using m Some by (simp add: get_current_week_def)
    from m r s ne show ?thesis by auto
  next
    case None
    then have no: "\<not> (\<exists>s \<in> set db. week_start s = ?ws)"
      by (simp add: find_one_week_start_None)
    show ?thesis
    proof (cases "find_one_sorted db")
      case n: None
      then have e: "db = []" by (simp add: find_one_sorted_None)
      have r: "get_current_week today db = Inl (HTTPException 404)"
        using m None n by (simp add: get_current_week_def)
      from m r e show ?thesis by simp
    next
      case (Some s)
      then have s: "s \<in> set db" "\<forall>x \<in> set db. week_start s \<le> week_start x"
        by (auto dest: find_one_sorted_Some)
      then have ne: "db \<noteq> []" by auto
      have r: "get_current_week today db = Inr s"
        using m None Some by (simp add: get_current_week_def)
      from m r s ne no show ?thesis by auto
    qed
  qed
qed

lemma week_starts_sample_store:
  "map week_start sample_store = [''2026-06-22'', ''2026-06-29'']"
  by (simp add: sample_store_def build_schedule_dates isoformat_739789 isoformat_739796)

lemma sample_store_nth:
  "sample_store ! 0 = snd (build_schedule sample_uuid4 0 739789 739795 0)"
  "sample_store ! 1 = snd (build_schedule sample_uuid4 7 739796 739802 1)"
  by (simp_all add: sample_store_def)

lemma get_current_week_739784:
  "get_current_week 739784 sample_store = Inr (sample_store ! 0)"
proof -
  have m: "get_monday_of_week 739784 = Inr 739782"
    by (simp add: get_monday_of_week_def weekday_def date_sub_def date_add_def MAXORDINAL_def)
  have i: "isoformat 739782 = ''2026-06-15''"
    by (simp add: calendar_defs)
  have f: "find_one_week_start ''2026-06-15'' sample_store = None"
    by (simp add: find_one_week_start_def sample_store_def build_schedule_dates
        isoformat_739789 isoformat_739796)
  have s: "find_one_sorted sample_store = Some (sample_store ! 0)"
    by (simp add: find_one_sorted_def sample_store_def build_schedule_dates
        isoformat_739789 isoformat_739796)
  show ?thesis
    by (simp add: get_current_week_def m i f s)
qed


lemma get_current_week_739800:
  "get_current_week 739800 sample_store = Inr (sample_store ! 1)"
proof -
  have m: "get_monday_of_week 739800 = Inr 739796"
    by (simp add: get_monday_of_week_def weekday_def date_sub_def date_add_def MAXORDINAL_def)
  have f: "find_one_week_start ''2026-06-29'' sample_store = Some (sample_store ! 1)"
    by (simp add: find_one_week_start_def sample_store_def build_schedule_dates
        isoformat_739789 isoformat_739796)
  show ?thesis
    by (simp add: get_current_week_def m isoformat_739796 f)
qed

theorem get_current_week_result_witness:
  "valid_date 739784 \<and> weekday 739784 = 2 \<and> isoformat (739784 - 2) = ''2026-06-15'' \<and>
   map week_start sample_store = [''2026-06-22'', ''2026-06-29''] \<and>
   get_current_week 739784 sample_store = Inr (sample_store ! 0) \<and>
   week_start (sample_store ! 0) \<le> week_start (sample_store ! 1) \<and>
   valid_date 739800 \<and> weekday 739800 = 4 \<and> isoformat (739800 - 4) = ''2026-06-29'' \<and>
   get_current_week 739800 sample_store = Inr (sample_store ! 1) \<and>
   week_start (sample_store ! 1) = ''2026-06-29'' \<and>
   get_current_week 739784 [] = Inl (HTTPException 404)"
proof -
  have v: "valid_date 739784" "valid_date 739800"
    by (simp_all add: valid_date_def MAXORDINAL_def)
  have w: "weekday 739784 = 2" "weekday 739800 = 4"
    by (simp_all add: weekday_def)
  have i: "isoformat (739784 - 2) = ''2026-06-15''" "isoformat (739800 - 4) = ''2026-06-29''"
    by (simp_all add: calendar_defs)
  have ws: "week_start (sample_store ! 0) = ''2026-06-22''"
    "week_start (sample_store ! 1) = ''2026-06-29''"
    unfolding sample_store_nth
    by (simp_all add: build_schedule_dates isoformat_739789 isoformat_739796)
  have mem: "set sample_store = {sample_store ! 0, sample_store ! 1}"
    by (simp add: sample_store_def)
  have a: "get_current_week 739784 sample_store = Inr (sample_store ! 0)"
    by (rule get_current_week_739784)
  have c: "get_current_week 739800 sample_store = Inr (sample_store ! 1)"
    by (rule get_current_week_739800)
  have e: "get_current_week 739784 [] = Inl (HTTPException 404)"
    using get_current_week_result [OF v(1), of "[]"] by blast
  have nomatch: "\<not> (\<exists>s \<in> set sample_store. week_start s = isoformat (739784 - weekday 739784)) \<and>
      sample_store \<noteq> []"
    unfolding mem w i using mem ws by auto
  from get_current_week_result [OF v(1), of sample_store] nomatch
  have "\<exists>s. get_current_week 739784 sample_store = Inr s \<and> s \<in> set sample_store \<and>
          (\<forall>x \<in> set sample_store. week_start s \<le> week_start x)"
    by blast
  then have "\<forall>x \<in> set sample_store. week_start (sample_store ! 0) \<le> week_start x"
    unfolding a by blast
  then have least: "week_start (sample_store ! 0) \<le> week_start (sample_store ! 1)"
    unfolding mem by blast
  from v w i a c e ws(2) least week_starts_sample_store show ?thesis
    by blast
qed

end
